theory Spec2Isabelle
  imports Main "HOL-Library.AList"
begin

section \<open>The osconfig module of cloud-init (cloudinit/config/cc_osconfig.py)\<close>

subsection \<open>Values\<close>

text \<open>
  The values that the YAML cloud-config document and the JSON file
  \<^verbatim>\<open>/etc/osconfig/osconfig.json\<close> hold: \<^verbatim>\<open>None\<close>, booleans, unbounded
  integers, strings, lists and dictionaries with string keys. A dictionary is an
  association list in insertion order; \<open>map_of\<close> is the lookup and \<open>AList.update\<close> is
  the item assignment \<^verbatim>\<open>d[k] = v\<close>, which replaces the value of a key in place and
  appends a key that is new. Floating-point values are left out: the module never
  computes with a value, it only tests its truth value and stores it.
\<close>

datatype pyval =
    PNone
  | PBool bool
  | PInt int
  | PStr string
  | PList "pyval list"
  | PDict "(string \<times> pyval) list"

type_synonym pydict = "(string \<times> pyval) list"

text \<open>The truth value Python's \<^verbatim>\<open>if v:\<close> gives a value.\<close>

fun truthy :: "pyval \<Rightarrow> bool" where
  "truthy PNone = False"
| "truthy (PBool b) = b"
| "truthy (PInt i) = (i \<noteq> 0)"
| "truthy (PStr s) = (s \<noteq> [])"
| "truthy (PList xs) = (xs \<noteq> [])"
| "truthy (PDict kvs) = (kvs \<noteq> [])"

text \<open>\<^verbatim>\<open>d.get(k)\<close>: the value of the key, \<^verbatim>\<open>None\<close> when the key is absent.\<close>

definition py_get :: "pydict \<Rightarrow> string \<Rightarrow> pyval" where
  "py_get d k = (case map_of d k of None \<Rightarrow> PNone | Some v \<Rightarrow> v)"

text \<open>\<^verbatim>\<open>d.get(k, dflt)\<close>.\<close>

definition py_get_default :: "pydict \<Rightarrow> string \<Rightarrow> pyval \<Rightarrow> pyval" where
  "py_get_default d k dflt = (case map_of d k of None \<Rightarrow> dflt | Some v \<Rightarrow> v)"

text \<open>\<^verbatim>\<open>d[k] = v\<close>.\<close>

definition py_setitem :: "pydict \<Rightarrow> string \<Rightarrow> pyval \<Rightarrow> pydict" where
  "py_setitem d k v = AList.update k v d"

subsection \<open>Errors, effects and the world the handler runs in\<close>

text \<open>
  Every exception that can leave \<^verbatim>\<open>handle\<close> is a value. \<open>AttributeError\<close> is raised by
  the handler's own \<^verbatim>\<open>osconfig_cfg.get\<close> when the section is not a dictionary; the others
  are raised by the collaborators.
\<close>

datatype error =
    AttributeError
  | InstallError
  | LoadError
  | ServiceControlError
  | WriteError

text \<open>One entry of the trace per call that the handler makes to the outside.\<close>

datatype event =
    LogInfo string
  | Which string
  | InstallPackages "string list"
  | LoadTextFile string
  | ManageService string string
  | WriteJson string pydict

text \<open>
  The collaborators (\<^verbatim>\<open>subp.which\<close>, \<^verbatim>\<open>distro.install_packages\<close>,
  \<^verbatim>\<open>distro.manage_service\<close>, \<^verbatim>\<open>util.load_text_file\<close>, \<^verbatim>\<open>util.load_json\<close>,
  \<^verbatim>\<open>atomic_helper.write_json\<close>) are imported by the module, not defined in it. What
  each of them answers is a field of the world, so that every theorem holds for every
  behaviour of the collaborators: whether the agent's binary is found, whether
  installing, stopping, writing and starting fail, and what loading the file yields
  (the decoded dictionary, or the error of an unreadable file or of invalid JSON).
  The trace records the calls in order.
\<close>

record world =
  which_osconfig :: bool
  install_fails :: bool
  stop_fails :: bool
  write_fails :: bool
  start_fails :: bool
  osconfig_json :: "error + pydict"
  trace :: "event list"

definition emit :: "event \<Rightarrow> world \<Rightarrow> world" where
  "emit e w = w\<lparr>trace := trace w @ [e]\<rparr>"

definition OSCONFIG_CONFIGURATION_FILEPATH :: string where
  "OSCONFIG_CONFIGURATION_FILEPATH = ''/etc/osconfig/osconfig.json''"

text \<open>
  Modelled from the spec: \<^verbatim>\<open>LOG.info\<close>; the message is logged, nothing else happens.
\<close>

definition log_info :: "string \<Rightarrow> world \<Rightarrow> world" where
  "log_info msg w = emit (LogInfo msg) w"

text \<open>
  Modelled from the spec: \<^verbatim>\<open>subp.which(program)\<close>, the \<open>isInstalled\<close> of the
  PackageInstaller collaborator; it answers whether the binary is present.
\<close>

definition subp_which :: "string \<Rightarrow> world \<Rightarrow> bool \<times> world" where
  "subp_which program w = (which_osconfig w, emit (Which program) w)"

text \<open>
  Modelled from the spec: \<^verbatim>\<open>cloud.distro.install_packages(pkgs)\<close>, the \<open>install\<close> of
  the PackageInstaller collaborator; a failure is raised as an error.
\<close>

definition install_packages :: "string list \<Rightarrow> world \<Rightarrow> (error + unit) \<times> world" where
  "install_packages pkgs w =
     (let w' = emit (InstallPackages pkgs) w
      in if install_fails w then (Inl InstallError, w') else (Inr (), w'))"

text \<open>
  Modelled from the spec: \<^verbatim>\<open>util.load_json(util.load_text_file(path))\<close>, the loader
  collaborator; an unreadable file and invalid JSON are raised as an error.
\<close>

definition load_json_file :: "string \<Rightarrow> world \<Rightarrow> (error + pydict) \<times> world" where
  "load_json_file path w = (osconfig_json w, emit (LoadTextFile path) w)"

text \<open>
  Modelled from the spec: \<^verbatim>\<open>distro.manage_service(action, service)\<close>, the \<open>stop\<close> and
  \<open>start\<close> of the ServiceController collaborator; a failure is raised as an error.
\<close>

definition manage_service :: "string \<Rightarrow> string \<Rightarrow> world \<Rightarrow> (error + unit) \<times> world" where
  "manage_service action service w =
     (let w' = emit (ManageService action service) w
      in if (if action = ''stop'' then stop_fails w else start_fails w)
         then (Inl ServiceControlError, w') else (Inr (), w'))"

text \<open>
  Modelled from the spec: \<^verbatim>\<open>write_json(path, data)\<close> of \<^verbatim>\<open>cloudinit.atomic_helper\<close>;
  the file holds the data after a write that succeeds and is untouched by one that
  fails.
\<close>

definition write_json :: "string \<Rightarrow> pydict \<Rightarrow> world \<Rightarrow> (error + unit) \<times> world" where
  "write_json path data w =
     (let w' = emit (WriteJson path data) w
      in if write_fails w then (Inl WriteError, w')
         else (Inr (), w'\<lparr>osconfig_json := Inr data\<rparr>))"

subsection \<open>The module\<close>

text \<open>
  \<^verbatim>\<open>update_config(distro, config)\<close>, lines 69 to 73: stop the service, write the file,
  start the service. An exception of one call skips the calls after it.
\<close>

definition update_config :: "world \<Rightarrow> pydict \<Rightarrow> (error + unit) \<times> world" where
  "update_config w config =
     (case manage_service ''stop'' ''osconfig'' w of
        (Inl e, w1) \<Rightarrow> (Inl e, w1)
      | (Inr _, w1) \<Rightarrow>
          (case write_json OSCONFIG_CONFIGURATION_FILEPATH config w1 of
             (Inl e, w2) \<Rightarrow> (Inl e, w2)
           | (Inr _, w2) \<Rightarrow> manage_service ''start'' ''osconfig'' w2))"

text \<open>The six configuration points that \<^verbatim>\<open>handle\<close> reads, lines 84 to 93.\<close>

record options =
  localManagement :: pyval
  gitManagement :: pyval
  gitRepositoryUrl :: pyval
  gitBranch :: pyval
  debugCommandLogging :: pyval
  debugFullLogging :: pyval

definition read_options :: "pydict \<Rightarrow> options" where
  "read_options osconfig_cfg =
     \<lparr> localManagement = py_get osconfig_cfg ''local_management'',
       gitManagement = py_get osconfig_cfg ''git_management'',
       gitRepositoryUrl = py_get osconfig_cfg ''git_repository_url'',
       gitBranch = py_get osconfig_cfg ''git_branch'',
       debugCommandLogging = py_get osconfig_cfg ''debug_command_logging'',
       debugFullLogging = py_get osconfig_cfg ''debug_full_logging'' \<rparr>"

text \<open>
  The merge of \<^verbatim>\<open>handle\<close>, lines 103 to 115, which the specification calls
  \<open>reconcile\<close>: the loaded dictionary \<open>mycfg\<close> is updated from the options. The key of
  line 107 is spelled as the source spells it.
\<close>

definition reconcile :: "pydict \<Rightarrow> options \<Rightarrow> pydict" where
  "reconcile mycfg opts =
     (let mycfg1 =
            (if truthy (localManagement opts)
             then py_setitem mycfg ''LocalManagement'' (localManagement opts)
             else if truthy (gitManagement opts)
             then py_setitem
                    (py_setitem
                       (py_setitem mycfg ''GitMananagement'' (gitManagement opts))
                       ''GitRepositoryUrl'' (gitRepositoryUrl opts))
                    ''GitBranch'' (gitBranch opts)
             else mycfg);
          mycfg2 =
            (if truthy (debugCommandLogging opts)
             then py_setitem mycfg1 ''CommandLogging'' (debugCommandLogging opts)
             else mycfg1)
      in if truthy (debugFullLogging opts)
         then py_setitem mycfg2 ''FullLogging'' (debugFullLogging opts)
         else mycfg2)"

text \<open>The message of line 77.\<close>

definition skip_message :: "string \<Rightarrow> string" where
  "skip_message name =
     ''Skipping module named '' @ name @ '', no 'osconfig' key in configuration''"

text \<open>
  \<^verbatim>\<open>handle(name, cfg, cloud, args)\<close>, lines 75 to 117. The distro of \<open>cloud\<close> is the
  world; \<open>args\<close> is not used by the source. A section that is not a dictionary has no
  \<^verbatim>\<open>get\<close>, so line 84 raises before any collaborator is called.
\<close>

definition handle :: "string \<Rightarrow> pydict \<Rightarrow> world \<Rightarrow> (error + unit) \<times> world" where
  "handle name cfg w =
     (if map_of cfg ''osconfig'' = None
      then (Inr (), log_info (skip_message name) w)
      else
        (case py_get_default cfg ''osconfig'' (PDict []) of
           PDict osconfig_cfg \<Rightarrow>
             (let opts = read_options osconfig_cfg;
                  (found, w1) = subp_which ''osconfig'' w;
                  (r, w2) = (if \<not> found then install_packages [''osconfig''] w1
                             else (Inr (), w1))
              in case r of
                   Inl e \<Rightarrow> (Inl e, w2)
                 | Inr _ \<Rightarrow>
                     (case load_json_file OSCONFIG_CONFIGURATION_FILEPATH w2 of
                        (Inl e, w3) \<Rightarrow> (Inl e, w3)
                      | (Inr mycfg, w3) \<Rightarrow> update_config w3 (reconcile mycfg opts)))
         | _ \<Rightarrow> (Inl AttributeError, w)))"

subsection \<open>Reading a run off the trace\<close>

text \<open>The calls that a run added to the trace of the world it started in.\<close>

definition new_events :: "world \<Rightarrow> world \<Rightarrow> event list" where
  "new_events w w' = drop (length (trace w)) (trace w')"

fun is_service :: "event \<Rightarrow> bool" where
  "is_service (ManageService action service) = True"
| "is_service ev = False"

fun is_write :: "event \<Rightarrow> bool" where
  "is_write (WriteJson path data) = True"
| "is_write ev = False"

text \<open>What precedes the load in a run with a section: the probe, and the installation
  when the probe finds nothing.\<close>

definition probe_events :: "world \<Rightarrow> event list" where
  "probe_events w =
     Which ''osconfig'' #
       (if which_osconfig w then [] else [InstallPackages [''osconfig'']])"

section \<open>Properties of the merge\<close>

subsection \<open>Auxiliary facts\<close>

lemma map_of_py_setitem: "map_of (py_setitem d k v) = (map_of d)(k \<mapsto> v)"
  by (simp add: py_setitem_def update_conv')

lemma py_setitem_Nil: "py_setitem [] k v = [(k, v)]"
  by (simp add: py_setitem_def)

lemma py_setitem_Cons:
  "py_setitem ((k', v') # d) k v =
     (if k' = k then (k, v) # d else (k', v') # py_setitem d k v)"
  by (simp add: py_setitem_def)

lemma read_options_Nil:
  "read_options [] =
     \<lparr>localManagement = PNone, gitManagement = PNone, gitRepositoryUrl = PNone,
      gitBranch = PNone, debugCommandLogging = PNone, debugFullLogging = PNone\<rparr>"
  by (simp add: read_options_def py_get_def)

lemma reconcile_no_request:
  assumes "\<not> truthy (localManagement opts)" and "\<not> truthy (gitManagement opts)"
    and "\<not> truthy (debugCommandLogging opts)" and "\<not> truthy (debugFullLogging opts)"
  shows "reconcile S opts = S"
  using assms by (simp add: reconcile_def)

text \<open>
  The keys that the merge can assign are the six of lines 105 to 115, with the spelling
  of line 107; every other key keeps its entry.
\<close>

lemma reconcile_frame:
  assumes "k \<notin> set [''LocalManagement'', ''GitMananagement'', ''GitRepositoryUrl'',
                     ''GitBranch'', ''CommandLogging'', ''FullLogging'']"
  shows "map_of (reconcile S opts) k = map_of S k"
  using assms by (simp add: reconcile_def Let_def map_of_py_setitem)

subsection \<open>Git management\<close>

text \<open>
  C1. The claim: when \<open>gitManagement\<close> is truthy and \<open>localManagement\<close> is falsy, the
  result maps \<open>GitManagement\<close>, \<open>GitRepositoryUrl\<close> and \<open>GitBranch\<close> to the values of the
  options. The code assigns the URL and the branch, but line 107 writes the value of
  \<open>gitManagement\<close> under the key \<open>GitMananagement\<close>. On the empty state and the options
  of the specification's scenario B, the result is the three entries below and has no
  entry for \<open>GitManagement\<close>.
\<close>

theorem git_management_key_misspelled:
  "reconcile []
     \<lparr>localManagement = PNone, gitManagement = PInt 1,
      gitRepositoryUrl = PStr ''https://example.com/r'', gitBranch = PStr ''main'',
      debugCommandLogging = PNone, debugFullLogging = PNone\<rparr>
   = [(''GitMananagement'', PInt 1),
      (''GitRepositoryUrl'', PStr ''https://example.com/r''),
      (''GitBranch'', PStr ''main'')]
   \<and> map_of
        (reconcile []
           \<lparr>localManagement = PNone, gitManagement = PInt 1,
            gitRepositoryUrl = PStr ''https://example.com/r'', gitBranch = PStr ''main'',
            debugCommandLogging = PNone, debugFullLogging = PNone\<rparr>)
        ''GitManagement'' = None"
  by (simp add: reconcile_def py_setitem_Nil py_setitem_Cons)

subsection \<open>Local management\<close>

text \<open>
  C3. When \<open>localManagement\<close> is truthy, the result maps \<open>LocalManagement\<close> to its value,
  and the entries of \<open>GitManagement\<close>, \<open>GitRepositoryUrl\<close> and \<open>GitBranch\<close> are those of
  the state before: none is added, changed or removed. This holds whatever the git
  options are; the result does not depend on them at all.
\<close>

theorem local_management_wins:
  assumes "truthy (localManagement opts)"
  shows "map_of (reconcile S opts) ''LocalManagement'' = Some (localManagement opts)
    \<and> map_of (reconcile S opts) ''GitManagement'' = map_of S ''GitManagement''
    \<and> map_of (reconcile S opts) ''GitRepositoryUrl'' = map_of S ''GitRepositoryUrl''
    \<and> map_of (reconcile S opts) ''GitBranch'' = map_of S ''GitBranch''
    \<and> reconcile S opts =
        reconcile S
          (opts\<lparr>gitManagement := PNone, gitRepositoryUrl := PNone, gitBranch := PNone\<rparr>)"
  using assms by (simp add: reconcile_def Let_def map_of_py_setitem)

theorem local_management_wins_witness:
  "truthy (localManagement
      \<lparr>localManagement = PInt 1, gitManagement = PInt 1,
       gitRepositoryUrl = PStr ''u'', gitBranch = PStr ''b'',
       debugCommandLogging = PNone, debugFullLogging = PNone\<rparr>)
   \<and> map_of
        (reconcile [(''GitBranch'', PStr ''old'')]
           \<lparr>localManagement = PInt 1, gitManagement = PInt 1,
            gitRepositoryUrl = PStr ''u'', gitBranch = PStr ''b'',
            debugCommandLogging = PNone, debugFullLogging = PNone\<rparr>)
        ''LocalManagement'' = Some (PInt 1)
   \<and> map_of
        (reconcile [(''GitBranch'', PStr ''old'')]
           \<lparr>localManagement = PInt 1, gitManagement = PInt 1,
            gitRepositoryUrl = PStr ''u'', gitBranch = PStr ''b'',
            debugCommandLogging = PNone, debugFullLogging = PNone\<rparr>)
        ''GitBranch'' = Some (PStr ''old'')
   \<and> map_of
        (reconcile [(''GitBranch'', PStr ''old'')]
           \<lparr>localManagement = PInt 1, gitManagement = PInt 1,
            gitRepositoryUrl = PStr ''u'', gitBranch = PStr ''b'',
            debugCommandLogging = PNone, debugFullLogging = PNone\<rparr>)
        ''GitManagement'' = None"
  using local_management_wins
    [of "\<lparr>localManagement = PInt 1, gitManagement = PInt 1,
          gitRepositoryUrl = PStr ''u'', gitBranch = PStr ''b'',
          debugCommandLogging = PNone, debugFullLogging = PNone\<rparr>"
        "[(''GitBranch'', PStr ''old'')]"]
  by (simp add: reconcile_def map_of_py_setitem)

subsection \<open>Keys outside the managed six\<close>

text \<open>
  C4. The claim: every key of the state other than \<open>LocalManagement\<close>, \<open>GitManagement\<close>,
  \<open>GitRepositoryUrl\<close>, \<open>GitBranch\<close>, \<open>CommandLogging\<close> and \<open>FullLogging\<close> keeps its value.
  The key \<open>GitMananagement\<close> of line 107 is none of the six, a state written by an
  earlier run with git management holds it, and the merge overwrites it: its value 1
  becomes 2.
\<close>

theorem misspelled_key_not_preserved:
  "''GitMananagement'' \<notin> set [''LocalManagement'', ''GitManagement'', ''GitRepositoryUrl'',
                               ''GitBranch'', ''CommandLogging'', ''FullLogging'']
   \<and> map_of [(''GitMananagement'', PInt 1)] ''GitMananagement'' = Some (PInt 1)
   \<and> map_of
        (reconcile [(''GitMananagement'', PInt 1)]
           \<lparr>localManagement = PNone, gitManagement = PInt 2, gitRepositoryUrl = PNone,
            gitBranch = PNone, debugCommandLogging = PNone, debugFullLogging = PNone\<rparr>)
        ''GitMananagement'' = Some (PInt 2)"
  by (simp add: reconcile_def map_of_py_setitem)

subsection \<open>The identity merge\<close>

text \<open>
  C5. Reconciling a state with options whose every field is absent or falsy returns the
  state unchanged; so does reconciling it with the options read from an empty section.
\<close>

theorem reconcile_identity:
  "(\<not> truthy (localManagement opts) \<and> \<not> truthy (gitManagement opts)
     \<and> \<not> truthy (gitRepositoryUrl opts) \<and> \<not> truthy (gitBranch opts)
     \<and> \<not> truthy (debugCommandLogging opts) \<and> \<not> truthy (debugFullLogging opts)
    \<longrightarrow> reconcile S opts = S)
   \<and> reconcile S (read_options []) = S"
  by (simp add: reconcile_no_request read_options_Nil)

theorem reconcile_identity_witness:
  "\<not> truthy (PInt 0) \<and> \<not> truthy (PBool False) \<and> \<not> truthy (PStr [])
   \<and> \<not> truthy PNone \<and> \<not> truthy (PList []) \<and> \<not> truthy (PDict [])
   \<and> reconcile [(''Protocol'', PInt 2), (''LocalManagement'', PInt 1)]
        \<lparr>localManagement = PInt 0, gitManagement = PBool False,
         gitRepositoryUrl = PStr [], gitBranch = PNone,
         debugCommandLogging = PList [], debugFullLogging = PDict []\<rparr>
      = [(''Protocol'', PInt 2), (''LocalManagement'', PInt 1)]"
  using reconcile_identity
    [of "\<lparr>localManagement = PInt 0, gitManagement = PBool False,
          gitRepositoryUrl = PStr [], gitBranch = PNone,
          debugCommandLogging = PList [], debugFullLogging = PDict []\<rparr>"
        "[(''Protocol'', PInt 2), (''LocalManagement'', PInt 1)]"]
  by simp

subsection \<open>Debug logging\<close>

text \<open>
  C6. If \<open>debugCommandLogging\<close> is truthy the result maps \<open>CommandLogging\<close> to its value,
  and if \<open>debugFullLogging\<close> is truthy the result maps \<open>FullLogging\<close> to its value, for
  every state and whatever the management options are, so in each branch of the
  management step.
\<close>

theorem debug_logging_independent:
  "(truthy (debugCommandLogging opts)
      \<longrightarrow> map_of (reconcile S opts) ''CommandLogging'' = Some (debugCommandLogging opts))
   \<and> (truthy (debugFullLogging opts)
      \<longrightarrow> map_of (reconcile S opts) ''FullLogging'' = Some (debugFullLogging opts))"
  by (simp add: reconcile_def Let_def map_of_py_setitem)

theorem debug_logging_independent_witness:
  "truthy (PInt 1) \<and> truthy (PBool True)
   \<and> map_of
        (reconcile [(''CommandLogging'', PInt 0)]
           \<lparr>localManagement = PNone, gitManagement = PInt 1,
            gitRepositoryUrl = PNone, gitBranch = PNone,
            debugCommandLogging = PInt 1, debugFullLogging = PBool True\<rparr>)
        ''CommandLogging'' = Some (PInt 1)
   \<and> map_of
        (reconcile [(''CommandLogging'', PInt 0)]
           \<lparr>localManagement = PNone, gitManagement = PInt 1,
            gitRepositoryUrl = PNone, gitBranch = PNone,
            debugCommandLogging = PInt 1, debugFullLogging = PBool True\<rparr>)
        ''FullLogging'' = Some (PBool True)"
  using debug_logging_independent
    [of "\<lparr>localManagement = PNone, gitManagement = PInt 1,
          gitRepositoryUrl = PNone, gitBranch = PNone,
          debugCommandLogging = PInt 1, debugFullLogging = PBool True\<rparr>"
        "[(''CommandLogging'', PInt 0)]"]
  by simp

section \<open>Properties of the handler\<close>

subsection \<open>The runs of the handler, stage by stage\<close>

lemma update_config_run:
  "update_config w config =
     (if stop_fails w
      then (Inl ServiceControlError,
            w\<lparr>trace := trace w @ [ManageService ''stop'' ''osconfig'']\<rparr>)
      else if write_fails w
      then (Inl WriteError,
            w\<lparr>trace := trace w @ [ManageService ''stop'' ''osconfig'',
                                  WriteJson OSCONFIG_CONFIGURATION_FILEPATH config]\<rparr>)
      else (if start_fails w then Inl ServiceControlError else Inr (),
            w\<lparr>osconfig_json := Inr config,
              trace := trace w @ [ManageService ''stop'' ''osconfig'',
                                  WriteJson OSCONFIG_CONFIGURATION_FILEPATH config,
                                  ManageService ''start'' ''osconfig'']\<rparr>))"
  by (simp add: update_config_def manage_service_def write_json_def emit_def Let_def)

lemma handle_no_section:
  "map_of cfg ''osconfig'' = None \<Longrightarrow>
   handle name cfg w = (Inr (), w\<lparr>trace := trace w @ [LogInfo (skip_message name)]\<rparr>)"
  by (simp add: handle_def log_info_def emit_def)

lemma handle_not_dict:
  assumes "map_of cfg ''osconfig'' = Some v" and "\<forall>sect. v \<noteq> PDict sect"
  shows "handle name cfg w = (Inl AttributeError, w)"
  using assms by (cases v) (simp_all add: handle_def py_get_default_def)

lemma handle_install_fails:
  assumes "map_of cfg ''osconfig'' = Some (PDict sect)"
    and "\<not> which_osconfig w" and "install_fails w"
  shows "handle name cfg w = (Inl InstallError, w\<lparr>trace := trace w @ probe_events w\<rparr>)"
  using assms
  by (simp add: handle_def py_get_default_def subp_which_def install_packages_def
      emit_def probe_events_def Let_def)

lemma handle_load_fails:
  assumes "map_of cfg ''osconfig'' = Some (PDict sect)"
    and "which_osconfig w \<or> \<not> install_fails w" and "osconfig_json w = Inl e"
  shows "handle name cfg w =
    (Inl e,
     w\<lparr>trace := trace w @ probe_events w @
                 [LoadTextFile OSCONFIG_CONFIGURATION_FILEPATH]\<rparr>)"
  using assms
  by (auto simp add: handle_def py_get_default_def subp_which_def install_packages_def
      load_json_file_def emit_def probe_events_def Let_def)

lemma handle_persist:
  assumes "map_of cfg ''osconfig'' = Some (PDict sect)"
    and "which_osconfig w \<or> \<not> install_fails w" and "osconfig_json w = Inr mycfg"
  shows "handle name cfg w =
    update_config
      (w\<lparr>trace := trace w @ probe_events w @
                  [LoadTextFile OSCONFIG_CONFIGURATION_FILEPATH]\<rparr>)
      (reconcile mycfg (read_options sect))"
  using assms
  by (auto simp add: handle_def py_get_default_def subp_which_def install_packages_def
      load_json_file_def emit_def probe_events_def Let_def)

text \<open>The section enters a run only through the six options read from it.\<close>

lemma handle_section_cong:
  assumes "map_of cfg ''osconfig'' = Some (PDict sect)"
    and "map_of cfg' ''osconfig'' = Some (PDict sect')"
    and "read_options sect = read_options sect'"
  shows "handle name cfg w = handle name cfg' w"
  using assms by (simp add: handle_def py_get_default_def)

subsection \<open>The module's documented logging example\<close>

text \<open>
  C2. The claim: a section that supplies \<open>command_logging\<close> or \<open>full_logging\<close> is not
  silently ignored; its values reach the result or are flagged. The third example of
  the module's own \<open>meta\<close> (lines 56 to 61) is such a section. Lines 92 and 93 read
  \<open>debug_command_logging\<close> and \<open>debug_full_logging\<close> only: the options read from the
  example are those read from an empty section, the merge returns every state
  unchanged, and the whole run, result and trace, is the run of an empty section, in
  which nothing is logged.
\<close>

theorem logging_aliases_silently_ignored:
  "read_options [(''command_logging'', PInt 1), (''full_logging'', PInt 1)] = read_options []
   \<and> reconcile S (read_options [(''command_logging'', PInt 1), (''full_logging'', PInt 1)]) = S
   \<and> handle name
        [(''osconfig'', PDict [(''command_logging'', PInt 1), (''full_logging'', PInt 1)])] w
      = handle name [(''osconfig'', PDict [])] w"
proof -
  have eq: "read_options [(''command_logging'', PInt 1), (''full_logging'', PInt 1)]
            = read_options []"
    by (simp add: read_options_def py_get_def)
  have "reconcile S (read_options []) = S"
    by (simp add: read_options_Nil reconcile_no_request)
  moreover have "handle name
        [(''osconfig'', PDict [(''command_logging'', PInt 1), (''full_logging'', PInt 1)])] w
      = handle name [(''osconfig'', PDict [])] w"
    by (rule handle_section_cong [OF _ _ eq]) simp_all
  ultimately show ?thesis using eq by simp
qed

subsection \<open>No section\<close>

text \<open>
  C7. When the configuration has no \<open>osconfig\<close> key, the handler returns normally and
  the world is the one it started in but for one logged message: the only call of the
  run is \<open>LOG.info\<close>, so nothing is probed or installed, the file is neither read nor
  written and holds what it held, and the service is neither stopped nor started.
\<close>

theorem handle_skips_without_section:
  assumes "map_of cfg ''osconfig'' = None"
  shows "handle name cfg w =
           (Inr (), w\<lparr>trace := trace w @ [LogInfo (skip_message name)]\<rparr>)
    \<and> new_events w (snd (handle name cfg w)) = [LogInfo (skip_message name)]
    \<and> osconfig_json (snd (handle name cfg w)) = osconfig_json w"
  using assms by (simp add: handle_no_section new_events_def)

theorem handle_skips_without_section_witness:
  "map_of [(''runcmd'', PList [PStr ''ls''])] ''osconfig'' = None
   \<and> handle ''cc_osconfig'' [(''runcmd'', PList [PStr ''ls''])]
        \<lparr>which_osconfig = False, install_fails = False, stop_fails = False,
         write_fails = False, start_fails = False,
         osconfig_json = Inr [(''Protocol'', PInt 2)], trace = []\<rparr>
      = (Inr (),
         \<lparr>which_osconfig = False, install_fails = False, stop_fails = False,
          write_fails = False, start_fails = False,
          osconfig_json = Inr [(''Protocol'', PInt 2)],
          trace = [LogInfo (skip_message ''cc_osconfig'')]\<rparr>)"
  using handle_skips_without_section
    [of "[(''runcmd'', PList [PStr ''ls''])]" "''cc_osconfig''"
        "\<lparr>which_osconfig = False, install_fails = False, stop_fails = False,
          write_fails = False, start_fails = False,
          osconfig_json = Inr [(''Protocol'', PInt 2)], trace = []\<rparr>"]
  by simp

subsection \<open>Failing installation, failing load\<close>

text \<open>
  C8. In a run with a section in which the installation fails (the binary is not found
  and \<open>install_packages\<close> raises) or the load of the file fails, the handler ends with
  that error, the file holds what it held, and the run has no call of \<open>write_json\<close> and
  no call of \<open>manage_service\<close>.
\<close>

theorem handle_failure_writes_nothing:
  assumes "map_of cfg ''osconfig'' = Some (PDict sect)"
    and "(\<not> which_osconfig w \<and> install_fails w) \<or> isl (osconfig_json w)"
  shows "fst (handle name cfg w) =
           Inl (if \<not> which_osconfig w \<and> install_fails w then InstallError
                else projl (osconfig_json w))
       \<and> osconfig_json (snd (handle name cfg w)) = osconfig_json w
       \<and> filter is_write (new_events w (snd (handle name cfg w))) = []
       \<and> filter is_service (new_events w (snd (handle name cfg w))) = []"
proof (cases "\<not> which_osconfig w \<and> install_fails w")
  case True
  then have "handle name cfg w = (Inl InstallError, w\<lparr>trace := trace w @ probe_events w\<rparr>)"
    using assms(1) by (simp add: handle_install_fails)
  with True show ?thesis by (simp add: new_events_def probe_events_def)
next
  case False
  with assms(2) obtain e where e: "osconfig_json w = Inl e"
    by (auto simp add: isl_def)
  from False have "which_osconfig w \<or> \<not> install_fails w" by blast
  from handle_load_fails [OF assms(1) this e]
  show ?thesis using False e by (auto simp add: new_events_def probe_events_def)
qed

theorem handle_failure_writes_nothing_witness:
  "map_of [(''osconfig'', PDict [(''local_management'', PInt 1)])] ''osconfig''
     = Some (PDict [(''local_management'', PInt 1)])
   \<and> \<not> which_osconfig
        \<lparr>which_osconfig = False, install_fails = True, stop_fails = False,
         write_fails = False, start_fails = False,
         osconfig_json = Inr [], trace = []\<rparr>
   \<and> install_fails
        \<lparr>which_osconfig = False, install_fails = True, stop_fails = False,
         write_fails = False, start_fails = False,
         osconfig_json = Inr [], trace = []\<rparr>
   \<and> isl (osconfig_json
        \<lparr>which_osconfig = True, install_fails = False, stop_fails = False,
         write_fails = False, start_fails = False,
         osconfig_json = Inl LoadError, trace = []\<rparr>)
   \<and> fst (handle ''cc_osconfig'' [(''osconfig'', PDict [(''local_management'', PInt 1)])]
        \<lparr>which_osconfig = False, install_fails = True, stop_fails = False,
         write_fails = False, start_fails = False,
         osconfig_json = Inr [], trace = []\<rparr>) = Inl InstallError
   \<and> filter is_service
        (new_events
           \<lparr>which_osconfig = False, install_fails = True, stop_fails = False,
            write_fails = False, start_fails = False,
            osconfig_json = Inr [], trace = []\<rparr>
           (snd (handle ''cc_osconfig''
                   [(''osconfig'', PDict [(''local_management'', PInt 1)])]
                   \<lparr>which_osconfig = False, install_fails = True, stop_fails = False,
                    write_fails = False, start_fails = False,
                    osconfig_json = Inr [], trace = []\<rparr>))) = []
   \<and> fst (handle ''cc_osconfig'' [(''osconfig'', PDict [(''local_management'', PInt 1)])]
        \<lparr>which_osconfig = True, install_fails = False, stop_fails = False,
         write_fails = False, start_fails = False,
         osconfig_json = Inl LoadError, trace = []\<rparr>) = Inl LoadError
   \<and> filter is_write
        (new_events
           \<lparr>which_osconfig = True, install_fails = False, stop_fails = False,
            write_fails = False, start_fails = False,
            osconfig_json = Inl LoadError, trace = []\<rparr>
           (snd (handle ''cc_osconfig''
                   [(''osconfig'', PDict [(''local_management'', PInt 1)])]
                   \<lparr>which_osconfig = True, install_fails = False, stop_fails = False,
                    write_fails = False, start_fails = False,
                    osconfig_json = Inl LoadError, trace = []\<rparr>))) = []"
  using handle_failure_writes_nothing
    [of "[(''osconfig'', PDict [(''local_management'', PInt 1)])]"
        "[(''local_management'', PInt 1)]"
        "\<lparr>which_osconfig = False, install_fails = True, stop_fails = False,
          write_fails = False, start_fails = False,
          osconfig_json = Inr [], trace = []\<rparr>"
        "''cc_osconfig''"]
    handle_failure_writes_nothing
    [of "[(''osconfig'', PDict [(''local_management'', PInt 1)])]"
        "[(''local_management'', PInt 1)]"
        "\<lparr>which_osconfig = True, install_fails = False, stop_fails = False,
          write_fails = False, start_fails = False,
          osconfig_json = Inl LoadError, trace = []\<rparr>"
        "''cc_osconfig''"]
  by simp

subsection \<open>Stop, write, start\<close>

text \<open>
  C9. The claim: in every run that reaches the persist step the effects are exactly
  stop, write, start. Lines 69 to 73 have no handler around the three calls, so a call
  that raises ends the sequence there. In the run below the probe and the load succeed,
  the persist step is reached, \<open>write_json\<close> raises, and the calls end with stop and
  write: the service is not started again.
\<close>

theorem stop_write_without_start_counterexample:
  "new_events
     \<lparr>which_osconfig = True, install_fails = False, stop_fails = False,
      write_fails = True, start_fails = False,
      osconfig_json = Inr [], trace = []\<rparr>
     (snd (handle ''cc_osconfig''
             [(''osconfig'', PDict [(''local_management'', PInt 1)])]
             \<lparr>which_osconfig = True, install_fails = False, stop_fails = False,
              write_fails = True, start_fails = False,
              osconfig_json = Inr [], trace = []\<rparr>))
   = [Which ''osconfig'',
      LoadTextFile ''/etc/osconfig/osconfig.json'',
      ManageService ''stop'' ''osconfig'',
      WriteJson ''/etc/osconfig/osconfig.json'' [(''LocalManagement'', PInt 1)]]
   \<and> fst (handle ''cc_osconfig''
             [(''osconfig'', PDict [(''local_management'', PInt 1)])]
             \<lparr>which_osconfig = True, install_fails = False, stop_fails = False,
              write_fails = True, start_fails = False,
              osconfig_json = Inr [], trace = []\<rparr>) = Inl WriteError
   \<and> ManageService ''start'' ''osconfig'' \<notin>
       set (new_events
              \<lparr>which_osconfig = True, install_fails = False, stop_fails = False,
               write_fails = True, start_fails = False,
               osconfig_json = Inr [], trace = []\<rparr>
              (snd (handle ''cc_osconfig''
                      [(''osconfig'', PDict [(''local_management'', PInt 1)])]
                      \<lparr>which_osconfig = True, install_fails = False, stop_fails = False,
                       write_fails = True, start_fails = False,
                       osconfig_json = Inr [], trace = []\<rparr>)))"
proof -
  have "handle ''cc_osconfig''
          [(''osconfig'', PDict [(''local_management'', PInt 1)])]
          \<lparr>which_osconfig = True, install_fails = False, stop_fails = False,
           write_fails = True, start_fails = False,
           osconfig_json = Inr [], trace = []\<rparr>
        = (Inl WriteError,
           \<lparr>which_osconfig = True, install_fails = False, stop_fails = False,
            write_fails = True, start_fails = False,
            osconfig_json = Inr [],
            trace = [Which ''osconfig'',
                     LoadTextFile ''/etc/osconfig/osconfig.json'',
                     ManageService ''stop'' ''osconfig'',
                     WriteJson ''/etc/osconfig/osconfig.json''
                       [(''LocalManagement'', PInt 1)]]\<rparr>)"
    by (simp add: handle_def py_get_default_def subp_which_def load_json_file_def
        emit_def Let_def update_config_run read_options_def py_get_def reconcile_def
        py_setitem_def OSCONFIG_CONFIGURATION_FILEPATH_def)
  then show ?thesis by (simp add: new_events_def)
qed

text \<open>
  C9, as the code has it. The calls of \<open>update_config\<close> are the stop of the service,
  the write of the file and the start of the service, in this order and nothing else,
  each made only if the call before it did not raise: stop alone when the stop raises,
  stop and write when the write raises, stop, write and start otherwise. In every run
  of the handler that reaches the persist step (a section, the installation and the
  load succeed) these calls come after the probe, the installation and the load, so
  the pair of stop and start surrounds the write only. In a run in which the
  installation or the load fails there is no call of \<open>manage_service\<close> at all: such a
  failure does not leave the service stopped.
\<close>

theorem stop_write_start_sequence:
  "new_events w (snd (update_config w config)) =
     (if stop_fails w then [ManageService ''stop'' ''osconfig'']
      else if write_fails w
      then [ManageService ''stop'' ''osconfig'',
            WriteJson OSCONFIG_CONFIGURATION_FILEPATH config]
      else [ManageService ''stop'' ''osconfig'',
            WriteJson OSCONFIG_CONFIGURATION_FILEPATH config,
            ManageService ''start'' ''osconfig''])
   \<and> (map_of cfg ''osconfig'' = Some (PDict sect)
        \<and> (which_osconfig w \<or> \<not> install_fails w)
        \<and> osconfig_json w = Inr mycfg
      \<longrightarrow> new_events w (snd (handle name cfg w)) =
            probe_events w @
            LoadTextFile OSCONFIG_CONFIGURATION_FILEPATH #
            (if stop_fails w then [ManageService ''stop'' ''osconfig'']
             else if write_fails w
             then [ManageService ''stop'' ''osconfig'',
                   WriteJson OSCONFIG_CONFIGURATION_FILEPATH
                     (reconcile mycfg (read_options sect))]
             else [ManageService ''stop'' ''osconfig'',
                   WriteJson OSCONFIG_CONFIGURATION_FILEPATH
                     (reconcile mycfg (read_options sect)),
                   ManageService ''start'' ''osconfig'']))
   \<and> (map_of cfg ''osconfig'' = Some (PDict sect)
        \<and> ((\<not> which_osconfig w \<and> install_fails w) \<or> isl (osconfig_json w))
      \<longrightarrow> filter is_service (new_events w (snd (handle name cfg w))) = [])"
proof (intro conjI impI)
  show "new_events w (snd (update_config w config)) =
     (if stop_fails w then [ManageService ''stop'' ''osconfig'']
      else if write_fails w
      then [ManageService ''stop'' ''osconfig'',
            WriteJson OSCONFIG_CONFIGURATION_FILEPATH config]
      else [ManageService ''stop'' ''osconfig'',
            WriteJson OSCONFIG_CONFIGURATION_FILEPATH config,
            ManageService ''start'' ''osconfig''])"
    by (simp add: update_config_run new_events_def)
next
  assume a: "map_of cfg ''osconfig'' = Some (PDict sect)
        \<and> (which_osconfig w \<or> \<not> install_fails w)
        \<and> osconfig_json w = Inr mycfg"
  then have "handle name cfg w =
    update_config
      (w\<lparr>trace := trace w @ probe_events w @
                  [LoadTextFile OSCONFIG_CONFIGURATION_FILEPATH]\<rparr>)
      (reconcile mycfg (read_options sect))"
    by (simp add: handle_persist)
  then show "new_events w (snd (handle name cfg w)) =
            probe_events w @
            LoadTextFile OSCONFIG_CONFIGURATION_FILEPATH #
            (if stop_fails w then [ManageService ''stop'' ''osconfig'']
             else if write_fails w
             then [ManageService ''stop'' ''osconfig'',
                   WriteJson OSCONFIG_CONFIGURATION_FILEPATH
                     (reconcile mycfg (read_options sect))]
             else [ManageService ''stop'' ''osconfig'',
                   WriteJson OSCONFIG_CONFIGURATION_FILEPATH
                     (reconcile mycfg (read_options sect)),
                   ManageService ''start'' ''osconfig''])"
    by (simp add: update_config_run new_events_def)
next
  assume a: "map_of cfg ''osconfig'' = Some (PDict sect)
        \<and> ((\<not> which_osconfig w \<and> install_fails w) \<or> isl (osconfig_json w))"
  show "filter is_service (new_events w (snd (handle name cfg w))) = []"
  proof (cases "\<not> which_osconfig w \<and> install_fails w")
    case True
    with a have "handle name cfg w =
                   (Inl InstallError, w\<lparr>trace := trace w @ probe_events w\<rparr>)"
      by (simp add: handle_install_fails)
    then show ?thesis by (simp add: new_events_def probe_events_def)
  next
    case False
    with a obtain e where e: "osconfig_json w = Inl e"
      by (auto simp add: isl_def)
    from False have "which_osconfig w \<or> \<not> install_fails w" by blast
    from handle_load_fails [OF _ this e] a
    show ?thesis by (simp add: new_events_def probe_events_def)
  qed
qed

theorem stop_write_start_sequence_witness:
  "map_of [(''osconfig'', PDict [(''local_management'', PInt 1)])] ''osconfig''
     = Some (PDict [(''local_management'', PInt 1)])
   \<and> new_events
        \<lparr>which_osconfig = True, install_fails = False, stop_fails = False,
         write_fails = False, start_fails = False,
         osconfig_json = Inr [], trace = []\<rparr>
        (snd (handle ''cc_osconfig''
                [(''osconfig'', PDict [(''local_management'', PInt 1)])]
                \<lparr>which_osconfig = True, install_fails = False, stop_fails = False,
                 write_fails = False, start_fails = False,
                 osconfig_json = Inr [], trace = []\<rparr>))
      = [Which ''osconfig'',
         LoadTextFile ''/etc/osconfig/osconfig.json'',
         ManageService ''stop'' ''osconfig'',
         WriteJson ''/etc/osconfig/osconfig.json'' [(''LocalManagement'', PInt 1)],
         ManageService ''start'' ''osconfig'']
   \<and> new_events
        \<lparr>which_osconfig = True, install_fails = False, stop_fails = True,
         write_fails = False, start_fails = False,
         osconfig_json = Inr [], trace = []\<rparr>
        (snd (handle ''cc_osconfig''
                [(''osconfig'', PDict [(''local_management'', PInt 1)])]
                \<lparr>which_osconfig = True, install_fails = False, stop_fails = True,
                 write_fails = False, start_fails = False,
                 osconfig_json = Inr [], trace = []\<rparr>))
      = [Which ''osconfig'',
         LoadTextFile ''/etc/osconfig/osconfig.json'',
         ManageService ''stop'' ''osconfig'']
   \<and> filter is_service
        (new_events
           \<lparr>which_osconfig = False, install_fails = True, stop_fails = False,
            write_fails = False, start_fails = False,
            osconfig_json = Inr [], trace = []\<rparr>
           (snd (handle ''cc_osconfig''
                   [(''osconfig'', PDict [(''local_management'', PInt 1)])]
                   \<lparr>which_osconfig = False, install_fails = True, stop_fails = False,
                    write_fails = False, start_fails = False,
                    osconfig_json = Inr [], trace = []\<rparr>))) = []"
  using stop_write_start_sequence
    [of "\<lparr>which_osconfig = True, install_fails = False, stop_fails = False,
          write_fails = False, start_fails = False,
          osconfig_json = Inr [], trace = []\<rparr>"
        "[]"
        "[(''osconfig'', PDict [(''local_management'', PInt 1)])]"
        "[(''local_management'', PInt 1)]"
        "[]"
        "''cc_osconfig''"]
    stop_write_start_sequence
    [of "\<lparr>which_osconfig = True, install_fails = False, stop_fails = True,
          write_fails = False, start_fails = False,
          osconfig_json = Inr [], trace = []\<rparr>"
        "[]"
        "[(''osconfig'', PDict [(''local_management'', PInt 1)])]"
        "[(''local_management'', PInt 1)]"
        "[]"
        "''cc_osconfig''"]
    stop_write_start_sequence
    [of "\<lparr>which_osconfig = False, install_fails = True, stop_fails = False,
          write_fails = False, start_fails = False,
          osconfig_json = Inr [], trace = []\<rparr>"
        "[]"
        "[(''osconfig'', PDict [(''local_management'', PInt 1)])]"
        "[(''local_management'', PInt 1)]"
        "[]"
        "''cc_osconfig''"]
  by (simp add: probe_events_def OSCONFIG_CONFIGURATION_FILEPATH_def reconcile_def
      read_options_def py_get_def py_setitem_def)

subsection \<open>A section that asks for nothing\<close>

text \<open>
  C10. The claim: whenever the \<open>osconfig\<close> key is present and its section has no truthy
  recognized option, the handler reads the file, rewrites it with the same content and
  stops and restarts the service. A section that is present and null
  (\<^verbatim>\<open>osconfig:\<close> with nothing under it) has no truthy option, and line 84 raises on
  it before any call: nothing is read, written, stopped or started, even in a world in
  which every collaborator would succeed. And with the empty section \<^verbatim>\<open>osconfig: {}\<close>
  and a file that cannot be loaded, the run ends at the load, with no write and no
  call of \<open>manage_service\<close>.
\<close>

theorem handle_null_section_counterexample:
  "map_of [(''osconfig'', PNone)] ''osconfig'' = Some PNone
   \<and> handle ''cc_osconfig'' [(''osconfig'', PNone)]
        \<lparr>which_osconfig = True, install_fails = False, stop_fails = False,
         write_fails = False, start_fails = False,
         osconfig_json = Inr [(''Protocol'', PInt 2)], trace = []\<rparr>
      = (Inl AttributeError,
         \<lparr>which_osconfig = True, install_fails = False, stop_fails = False,
          write_fails = False, start_fails = False,
          osconfig_json = Inr [(''Protocol'', PInt 2)], trace = []\<rparr>)
   \<and> handle ''cc_osconfig'' [(''osconfig'', PDict [])]
        \<lparr>which_osconfig = True, install_fails = False, stop_fails = False,
         write_fails = False, start_fails = False,
         osconfig_json = Inl LoadError, trace = []\<rparr>
      = (Inl LoadError,
         \<lparr>which_osconfig = True, install_fails = False, stop_fails = False,
          write_fails = False, start_fails = False,
          osconfig_json = Inl LoadError,
          trace = [Which ''osconfig'',
                   LoadTextFile ''/etc/osconfig/osconfig.json'']\<rparr>)"
  by (simp add: handle_def py_get_default_def subp_which_def load_json_file_def
      emit_def Let_def OSCONFIG_CONFIGURATION_FILEPATH_def)

text \<open>
  C10, as the code has it. When the \<open>osconfig\<close> key is present, its section is a
  dictionary and the section has no truthy \<open>local_management\<close>, \<open>git_management\<close>,
  \<open>debug_command_logging\<close> or \<open>debug_full_logging\<close> (the empty section
  \<^verbatim>\<open>osconfig: {}\<close> is one), the handler does not skip. It probes for the binary and
  installs it when it is not found; unless the installation raises it reads the file;
  when the load succeeds it stops the service, writes back the state it read,
  unchanged, and starts the service, each call made only if the one before did not
  raise. In every such run the file holds afterwards what it held before, and when no
  collaborator raises the handler returns normally after read, stop, write of the
  identical state, start.
\<close>

theorem handle_empty_section_run:
  assumes "map_of cfg ''osconfig'' = Some (PDict sect)"
    and "\<not> truthy (localManagement (read_options sect))"
    and "\<not> truthy (gitManagement (read_options sect))"
    and "\<not> truthy (debugCommandLogging (read_options sect))"
    and "\<not> truthy (debugFullLogging (read_options sect))"
  shows "new_events w (snd (handle name cfg w)) =
      probe_events w @
      (if \<not> which_osconfig w \<and> install_fails w then []
       else LoadTextFile OSCONFIG_CONFIGURATION_FILEPATH #
         (case osconfig_json w of
            Inl e \<Rightarrow> []
          | Inr S \<Rightarrow>
              (if stop_fails w then [ManageService ''stop'' ''osconfig'']
               else if write_fails w
               then [ManageService ''stop'' ''osconfig'',
                     WriteJson OSCONFIG_CONFIGURATION_FILEPATH S]
               else [ManageService ''stop'' ''osconfig'',
                     WriteJson OSCONFIG_CONFIGURATION_FILEPATH S,
                     ManageService ''start'' ''osconfig''])))
    \<and> osconfig_json (snd (handle name cfg w)) = osconfig_json w
    \<and> ((which_osconfig w \<or> \<not> install_fails w) \<and> osconfig_json w = Inr S
         \<and> \<not> stop_fails w \<and> \<not> write_fails w \<and> \<not> start_fails w
       \<longrightarrow> handle name cfg w =
            (Inr (),
             w\<lparr>trace := trace w @ probe_events w @
                 [LoadTextFile OSCONFIG_CONFIGURATION_FILEPATH,
                  ManageService ''stop'' ''osconfig'',
                  WriteJson OSCONFIG_CONFIGURATION_FILEPATH S,
                  ManageService ''start'' ''osconfig'']\<rparr>))"
proof (cases "\<not> which_osconfig w \<and> install_fails w")
  case True
  then have "handle name cfg w =
               (Inl InstallError, w\<lparr>trace := trace w @ probe_events w\<rparr>)"
    using assms(1) by (simp add: handle_install_fails)
  with True show ?thesis by (simp add: new_events_def)
next
  case False
  then have ok: "which_osconfig w \<or> \<not> install_fails w" by blast
  show ?thesis
  proof (cases "osconfig_json w")
    case (Inl e)
    from handle_load_fails [OF assms(1) ok Inl, of name]
    show ?thesis using False Inl by (simp add: new_events_def)
  next
    case (Inr S')
    have same: "reconcile S' (read_options sect) = S'"
      using assms(2-5) by (rule reconcile_no_request)
    from handle_persist [OF assms(1) ok Inr, of name]
    have run: "handle name cfg w =
      update_config
        (w\<lparr>trace := trace w @ probe_events w @
                    [LoadTextFile OSCONFIG_CONFIGURATION_FILEPATH]\<rparr>) S'"
      by (simp add: same)
    show ?thesis using False Inr
      by (simp add: run update_config_run new_events_def)
  qed
qed

theorem handle_empty_section_run_witness:
  "map_of [(''osconfig'', PDict [])] ''osconfig'' = Some (PDict [])
   \<and> \<not> truthy (localManagement (read_options []))
   \<and> \<not> truthy (gitManagement (read_options []))
   \<and> \<not> truthy (debugCommandLogging (read_options []))
   \<and> \<not> truthy (debugFullLogging (read_options []))
   \<and> handle ''cc_osconfig'' [(''osconfig'', PDict [])]
        \<lparr>which_osconfig = False, install_fails = False, stop_fails = False,
         write_fails = False, start_fails = False,
         osconfig_json = Inr [(''Protocol'', PInt 2)], trace = []\<rparr>
      = (Inr (),
         \<lparr>which_osconfig = False, install_fails = False, stop_fails = False,
          write_fails = False, start_fails = False,
          osconfig_json = Inr [(''Protocol'', PInt 2)],
          trace = [Which ''osconfig'', InstallPackages [''osconfig''],
                   LoadTextFile ''/etc/osconfig/osconfig.json'',
                   ManageService ''stop'' ''osconfig'',
                   WriteJson ''/etc/osconfig/osconfig.json'' [(''Protocol'', PInt 2)],
                   ManageService ''start'' ''osconfig'']\<rparr>)
   \<and> new_events
        \<lparr>which_osconfig = False, install_fails = False, stop_fails = False,
         write_fails = False, start_fails = False,
         osconfig_json = Inr [(''Protocol'', PInt 2)], trace = []\<rparr>
        (snd (handle ''cc_osconfig'' [(''osconfig'', PDict [])]
                \<lparr>which_osconfig = False, install_fails = False, stop_fails = False,
                 write_fails = False, start_fails = False,
                 osconfig_json = Inr [(''Protocol'', PInt 2)], trace = []\<rparr>))
      = [Which ''osconfig'', InstallPackages [''osconfig''],
         LoadTextFile ''/etc/osconfig/osconfig.json'',
         ManageService ''stop'' ''osconfig'',
         WriteJson ''/etc/osconfig/osconfig.json'' [(''Protocol'', PInt 2)],
         ManageService ''start'' ''osconfig'']"
  using handle_empty_section_run
    [of "[(''osconfig'', PDict [])]" "[]"
        "\<lparr>which_osconfig = False, install_fails = False, stop_fails = False,
          write_fails = False, start_fails = False,
          osconfig_json = Inr [(''Protocol'', PInt 2)], trace = []\<rparr>"
        "''cc_osconfig''" "[(''Protocol'', PInt 2)]"]
  by (simp add: read_options_Nil probe_events_def new_events_def
      OSCONFIG_CONFIGURATION_FILEPATH_def)

end
